theory Spec2Isabelle
  imports Complex_Main "HOL-Library.Word" "HOL-Library.AList" "HOL-Library.Sublist"
begin

section \<open>Python values\<close>

text \<open>
  The handler of \<^verbatim>\<open>ts/torch_handler/vllm_handler.py\<close> works on untyped Python data: the
  request payload and the deployment configuration are whatever JSON or YAML delivered.
  \<open>pyval\<close> is that data. A Python \<^verbatim>\<open>str\<close> is a \<open>string\<close> whose elements stand for
  code points (the handler only compares, measures and slices strings, so nothing depends
  on the alphabet); a \<^verbatim>\<open>dict\<close> with string keys is an association list in
  insertion order; \<open>PPath\<close> is a \<^verbatim>\<open>pathlib.Path\<close>.
\<close>

type_synonym byte = "8 word"

datatype pyval =
    PNone
  | PBool bool
  | PInt int
  | PFloat rat
  | PStr string
  | PBytes "byte list"
  | PList "pyval list"
  | PDict "(string \<times> pyval) list"
  | PPath string

type_synonym pydict = "(string \<times> pyval) list"

text \<open>
  The three \<^verbatim>\<open>assert\<close> statements of the handler, by what they check: the batch size
  (``Expecting batch_size = 1''), the adapter's path (``<adapter name> misses adapter path'',
  carrying the adapter name) and the model (``please define model in vllm_engine_config or
  model_path in handler'').
\<close>

datatype assertion =
    BatchSize
  | MissesAdapterPath pyval
  | ModelUndefined

text \<open>The exceptions the handler can raise or let through.\<close>

datatype error =
    AssertionError assertion
  | AttributeError
  | TypeError
  | IndexError
  | KeyError
  | UnicodeDecodeError
  | UnboundLocalError string
  | EngineError string

text \<open>Truth value of a Python object, as \<^verbatim>\<open>not x\<close>, \<^verbatim>\<open>x or y\<close> and \<^verbatim>\<open>x and y\<close> test it.\<close>

fun truthy :: "pyval \<Rightarrow> bool" where
  "truthy PNone = False"
| "truthy (PBool b) = b"
| "truthy (PInt i) = (i \<noteq> 0)"
| "truthy (PFloat r) = (r \<noteq> 0)"
| "truthy (PStr s) = (s \<noteq> [])"
| "truthy (PBytes bs) = (bs \<noteq> [])"
| "truthy (PList xs) = (xs \<noteq> [])"
| "truthy (PDict kvs) = (kvs \<noteq> [])"
| "truthy (PPath p) = True"

definition py_or :: "pyval \<Rightarrow> pyval \<Rightarrow> pyval" where
  "py_or a b = (if truthy a then a else b)"

text \<open>\<^verbatim>\<open>len(x)\<close>: defined on sized objects, a \<^verbatim>\<open>TypeError\<close> on the others.\<close>

fun py_len :: "pyval \<Rightarrow> error + nat" where
  "py_len (PStr s) = Inr (length s)"
| "py_len (PBytes bs) = Inr (length bs)"
| "py_len (PList xs) = Inr (length xs)"
| "py_len (PDict kvs) = Inr (length kvs)"
| "py_len v = Inl TypeError"

text \<open>\<^verbatim>\<open>d.get(k)\<close> and \<^verbatim>\<open>d.get(k, default)\<close> on a dict.\<close>

definition dict_get_default :: "pydict \<Rightarrow> string \<Rightarrow> pyval \<Rightarrow> pyval" where
  "dict_get_default d k dflt = (case map_of d k of None \<Rightarrow> dflt | Some v \<Rightarrow> v)"

definition dict_get :: "pydict \<Rightarrow> string \<Rightarrow> pyval" where
  "dict_get d k = dict_get_default d k PNone"

text \<open>
  \<^verbatim>\<open>x.get(k, default)\<close> on an arbitrary object: only a dict has the method, every other
  value of \<open>pyval\<close> raises \<^verbatim>\<open>AttributeError\<close>.
\<close>

fun py_get :: "pyval \<Rightarrow> string \<Rightarrow> pyval \<Rightarrow> error + pyval" where
  "py_get (PDict d) k dflt = Inr (dict_get_default d k dflt)"
| "py_get v k dflt = Inl AttributeError"

section \<open>Objects of the engine library\<close>

text \<open>
  An object whose attributes are read with \<^verbatim>\<open>vars(obj)\<close> and written with
  \<^verbatim>\<open>setattr\<close> is its attribute dictionary.
\<close>

type_synonym attrs = "(string \<times> pyval) list"

record LoRARequest =
  lora_name :: string
  lora_int_id :: nat
  lora_local_path :: string

record CompletionOutput =
  out_text :: string
  token_ids :: "int list"

record RequestOutput =
  outputs :: "CompletionOutput list"
  finished :: bool

text \<open>
  What the asynchronous generator of one \<^verbatim>\<open>generate\<close> call yields: the events in order
  and, when the engine raises during generation, the failure after them.
\<close>

type_synonym generation = "RequestOutput list \<times> string option"

record CompletionResponseChoice =
  choice_index :: int
  choice_text :: string
  choice_logprobs :: pyval

record UsageInfo =
  prompt_tokens :: int
  completion_tokens :: int
  total_tokens :: int

record CompletionResponse =
  resp_id :: string
  created :: int
  resp_model :: string
  choices :: "CompletionResponseChoice list"
  usage :: UsageInfo

text \<open>
  A serialised JSON document is represented by the value it serialises:
  \<open>JsonText v\<close> is the text \<^verbatim>\<open>json.dumps(v)\<close>, and parsing gives \<open>v\<close> back.
\<close>

datatype jsontext = JsonText pyval

definition json_dumps :: "pyval \<Rightarrow> jsontext" where
  "json_dumps v = JsonText v"

fun json_loads :: "jsontext \<Rightarrow> pyval" where
  "json_loads (JsonText v) = v"

definition choice_json :: "CompletionResponseChoice \<Rightarrow> pyval" where
  "choice_json c =
     PDict [(''index'', PInt (choice_index c)), (''text'', PStr (choice_text c)),
            (''logprobs'', choice_logprobs c)]"

definition usage_json :: "UsageInfo \<Rightarrow> pyval" where
  "usage_json u =
     PDict [(''prompt_tokens'', PInt (prompt_tokens u)),
            (''completion_tokens'', PInt (completion_tokens u)),
            (''total_tokens'', PInt (total_tokens u))]"

text \<open>
  \<^verbatim>\<open>result.model_dump_json()\<close>, with the fields the handler passes to the constructors
  (the library classes add further fields of their own, at their defaults).
\<close>

definition model_dump_json :: "CompletionResponse \<Rightarrow> jsontext" where
  "model_dump_json r =
     JsonText (PDict [(''id'', PStr (resp_id r)), (''created'', PInt (created r)),
                      (''model'', PStr (resp_model r)),
                      (''choices'', PList (map choice_json (choices r))),
                      (''usage'', usage_json (usage r))])"

text \<open>
  What the handler takes from outside itself: the attribute dictionaries of a fresh
  \<^verbatim>\<open>SamplingParams()\<close> and of a fresh \<^verbatim>\<open>AsyncEngineArgs\<close> (without its
  \<^verbatim>\<open>model\<close>), \<^verbatim>\<open>pathlib\<close>'s \<^verbatim>\<open>joinpath\<close> and \<^verbatim>\<open>exists\<close>, the UTF-8 decoder,
  the engine's \<^verbatim>\<open>generate\<close> and the clock read by \<^verbatim>\<open>int(time.time())\<close>.
\<close>

record env =
  sampling_defaults :: attrs
  engine_defaults :: attrs
  joinpath :: "string \<Rightarrow> string \<Rightarrow> string"
  path_exists :: "string \<Rightarrow> bool"
  utf8_decode :: "byte list \<Rightarrow> string option"
  generate :: "pyval \<Rightarrow> attrs \<Rightarrow> string \<Rightarrow> LoRARequest option \<Rightarrow> generation"
  now :: int

section \<open>The handler\<close>

text \<open>
  One call of \<^verbatim>\<open>send_intermediate_predict_response\<close>, by its arguments.
\<close>

record intermediate =
  payload :: "jsontext list"
  to_ids :: "(nat \<times> string) list"
  label :: string
  status :: nat

text \<open>
  The state a request can change: the fields of the handler object, and what the handler
  did to its surroundings (the calls of the engine's \<^verbatim>\<open>generate\<close>, the intermediate
  responses sent, the metrics recorded).
\<close>

record VLLMHandler =
  model_dir :: string
  lora_ids :: "(string \<times> nat) list"
  adapters :: pyval
  vllm_engine :: "attrs option"
  initialized :: bool
  generate_calls :: "(pyval \<times> attrs \<times> string \<times> LoRARequest option) list"
  sent :: "intermediate list"
  metrics :: "string list"

record Context =
  request_ids :: "(nat \<times> string) list"

definition init :: "VLLMHandler" where
  "init = \<lparr> model_dir = [], lora_ids = [], adapters = PNone, vllm_engine = None,
            initialized = False, generate_calls = [], sent = [], metrics = [] \<rparr>"

text \<open>
  \<^verbatim>\<open>_set_attr_value\<close>: for every item of the configuration in turn, the body
  \<^verbatim>\<open>if k in items: setattr(obj, k, v)\<close> writes the value when the key is an attribute of
  the object.
\<close>

definition set_if_attr :: "attrs \<Rightarrow> string \<Rightarrow> pyval \<Rightarrow> attrs" where
  "set_if_attr obj k v = (if k \<in> set (map fst obj) then AList.update k v obj else obj)"

fun set_attr_value :: "attrs \<Rightarrow> pydict \<Rightarrow> attrs" where
  "set_attr_value obj [] = obj"
| "set_attr_value obj ((k, v) # config) = set_attr_value (set_if_attr obj k v) config"

definition get_sampling_params :: "env \<Rightarrow> pydict \<Rightarrow> attrs" where
  "get_sampling_params e req_data = set_attr_value (sampling_defaults e) req_data"

text \<open>\<^verbatim>\<open>d.setdefault(k, v)\<close>: the stored value when the key is there, else store and return \<open>v\<close>.\<close>

definition setdefault :: "(string \<times> nat) list \<Rightarrow> string \<Rightarrow> nat \<Rightarrow> nat \<times> (string \<times> nat) list" where
  "setdefault d k v = (case map_of d k of Some x \<Rightarrow> (x, d) | None \<Rightarrow> (v, d @ [(k, v)]))"

text \<open>
  \<^verbatim>\<open>self.adapters.get(adapter_name, "")\<close>: the table must be a dict and the key hashable
  (a list or a dict is not); a key that is not a string equals no key of the table.
\<close>

fun adapters_get :: "pyval \<Rightarrow> pyval \<Rightarrow> error + pyval" where
  "adapters_get (PDict tbl) (PStr name) = Inr (dict_get_default tbl name (PStr []))"
| "adapters_get (PDict tbl) (PList xs) = Inl TypeError"
| "adapters_get (PDict tbl) (PDict kvs) = Inl TypeError"
| "adapters_get (PDict tbl) key = Inr (PStr [])"
| "adapters_get tbl key = Inl AttributeError"

text \<open>
  \<^verbatim>\<open>str(pathlib.Path(self.model_dir).joinpath(adapter_path))\<close>: a string or a path joins,
  anything else is a \<^verbatim>\<open>TypeError\<close>.
\<close>

fun join_model_dir :: "env \<Rightarrow> string \<Rightarrow> pyval \<Rightarrow> error + string" where
  "join_model_dir e d (PStr p) = Inr (joinpath e d p)"
| "join_model_dir e d (PPath p) = Inr (joinpath e d p)"
| "join_model_dir e d v = Inl TypeError"

text \<open>
  \<^verbatim>\<open>_get_lora_request\<close>. The identifier is stored before the path is joined, so it stays
  in the table when the join raises. Only a string finds a path in the table of adapters
  (\<open>adapters_get\<close> gives every other name the empty default), so the name is a string
  where the identifier is assigned, and the last case of the name is never taken.
\<close>

definition get_lora_request ::
  "env \<Rightarrow> VLLMHandler \<Rightarrow> pydict \<Rightarrow> (error + LoRARequest option) \<times> VLLMHandler" where
  "get_lora_request e h req_data =
     (let adapter_name = dict_get_default req_data ''lora_adapter'' (PStr []) in
      case py_len adapter_name of
        Inl err \<Rightarrow> (Inl err, h)
      | Inr n \<Rightarrow>
          if n > 0 then
            (case adapters_get (adapters h) adapter_name of
               Inl err \<Rightarrow> (Inl err, h)
             | Inr adapter_path \<Rightarrow>
                 (case py_len adapter_path of
                    Inl err \<Rightarrow> (Inl err, h)
                  | Inr m \<Rightarrow>
                      if \<not> m > 0 then (Inl (AssertionError (MissesAdapterPath adapter_name)), h)
                      else
                        (case adapter_name of
                           PStr name \<Rightarrow>
                             (let (lora_id, ids) =
                                    setdefault (lora_ids h) name (length (lora_ids h) + 1);
                                  h' = h\<lparr>lora_ids := ids\<rparr>
                              in case join_model_dir e (model_dir h) adapter_path of
                                   Inl err \<Rightarrow> (Inl err, h')
                                 | Inr p \<Rightarrow>
                                     (Inr (Some \<lparr>lora_name = name, lora_int_id = lora_id,
                                                 lora_local_path = p\<rparr>), h'))
                         | _ \<Rightarrow> (Inl TypeError, h))))
          else (Inr None, h))"

text \<open>\<^verbatim>\<open>prepare_completion_request\<close>: the normalised request.\<close>

type_synonym completion_request = "pyval \<times> pyval \<times> attrs \<times> LoRARequest option"

definition prepare_completion_request ::
  "env \<Rightarrow> VLLMHandler \<Rightarrow> pyval \<Rightarrow> (error + completion_request) \<times> VLLMHandler" where
  "prepare_completion_request e h request =
     (case request of
        PDict d \<Rightarrow>
          (let prompt = dict_get d ''prompt'';
               stream = dict_get_default d ''stream'' (PBool False);
               sampling_params = get_sampling_params e d
           in case get_lora_request e h d of
                (Inl err, h') \<Rightarrow> (Inl err, h')
              | (Inr lora_request, h') \<Rightarrow>
                  (Inr (prompt, stream, sampling_params, lora_request), h'))
      | _ \<Rightarrow> (Inl AttributeError, h))"

text \<open>
  \<^verbatim>\<open>preprocess\<close>: one request only; the payload is the \<^verbatim>\<open>data\<close> field or, when that is
  missing or empty, the \<^verbatim>\<open>body\<close> field; bytes are decoded.
\<close>

definition preprocess ::
  "env \<Rightarrow> VLLMHandler \<Rightarrow> pydict list \<Rightarrow> Context \<Rightarrow>
     (error + completion_request list) \<times> VLLMHandler" where
  "preprocess e h requests ctx =
     (if length requests \<noteq> 1 then (Inl (AssertionError BatchSize), h)
      else
        (let req_data = hd requests;
             data = py_or (dict_get req_data ''data'') (dict_get req_data ''body'')
         in case (case data of
                    PBytes bs \<Rightarrow>
                      (case utf8_decode e bs of
                         None \<Rightarrow> Inl UnicodeDecodeError
                       | Some s \<Rightarrow> Inr (PStr s))
                  | _ \<Rightarrow> Inr data) of
              Inl err \<Rightarrow> (Inl err, h)
            | Inr data' \<Rightarrow>
                (case prepare_completion_request e h data' of
                   (Inl err, h') \<Rightarrow> (Inl err, h')
                 | (Inr t, h') \<Rightarrow> (Inr [t], h'))))"


text \<open>The variables of \<^verbatim>\<open>inference\<close> that the loop over the events assigns.\<close>

record loop_vars =
  text_len :: nat
  result :: "pyval option"
  output_var :: "RequestOutput option"

text \<open>\<^verbatim>\<open>output.outputs[0]\<close> and \<^verbatim>\<open>token_ids[-1]\<close>: an \<^verbatim>\<open>IndexError\<close> on an empty sequence.\<close>

definition first_output :: "RequestOutput \<Rightarrow> error + CompletionOutput" where
  "first_output ev = (case outputs ev of [] \<Rightarrow> Inl IndexError | c # cs \<Rightarrow> Inr c)"

definition last_token :: "CompletionOutput \<Rightarrow> error + int" where
  "last_token c = (if token_ids c = [] then Inl IndexError else Inr (last (token_ids c)))"

text \<open>
  The \<^verbatim>\<open>async for\<close> loop of \<^verbatim>\<open>inference\<close>: every event becomes \<^verbatim>\<open>output\<close>; an event
  that is not finished, for a request that streams, is cut at \<^verbatim>\<open>text_len\<close>, assigned to
  \<^verbatim>\<open>result\<close> and sent.
\<close>

fun consume ::
  "pyval \<Rightarrow> Context \<Rightarrow> RequestOutput list \<Rightarrow> loop_vars \<Rightarrow> VLLMHandler \<Rightarrow>
     (error + loop_vars) \<times> VLLMHandler" where
  "consume stream ctx [] vs h = (Inr vs, h)"
| "consume stream ctx (ev # evs) vs h =
     (if \<not> finished ev \<and> truthy stream then
        (case first_output ev of
           Inl err \<Rightarrow> (Inl err, h)
         | Inr c \<Rightarrow>
             (case last_token c of
                Inl err \<Rightarrow> (Inl err, h)
              | Inr tok \<Rightarrow>
                  (let res = PDict [(''text'', PStr (drop (text_len vs) (out_text c))),
                                    (''tokens'', PInt tok)];
                       h' = h\<lparr>sent := sent h @
                              [\<lparr>payload = [json_dumps res], to_ids = request_ids ctx,
                                label = ''Result'', status = 200\<rparr>]\<rparr>
                   in consume stream ctx evs
                        \<lparr>text_len = length (out_text c), result = Some res, output_var = Some ev\<rparr>
                        h')))
      else consume stream ctx evs (vs\<lparr>output_var := Some ev\<rparr>) h)"

definition inference ::
  "env \<Rightarrow> VLLMHandler \<Rightarrow> completion_request list \<Rightarrow> Context \<Rightarrow>
     (error + jsontext list) \<times> VLLMHandler" where
  "inference e h input_batch ctx =
     (case input_batch of
        [] \<Rightarrow> (Inl IndexError, h)
      | (prompt, stream, params, lora) # rest \<Rightarrow>
          (case map_of (request_ids ctx) 0 of
             None \<Rightarrow> (Inl KeyError, h)
           | Some rid \<Rightarrow>
               (let (evs, failure) = generate e prompt params rid lora;
                    h1 = h\<lparr>generate_calls := generate_calls h @ [(prompt, params, rid, lora)]\<rparr>
                in case consume stream ctx evs
                          \<lparr>text_len = 0, result = None, output_var = None\<rparr> h1 of
                     (Inl err, h2) \<Rightarrow> (Inl err, h2)
                   | (Inr vs, h2) \<Rightarrow>
                       (case failure of
                          Some msg \<Rightarrow> (Inl (EngineError msg), h2)
                        | None \<Rightarrow>
                            if \<not> truthy stream then
                              (case output_var vs of
                                 None \<Rightarrow> (Inl (UnboundLocalError ''output''), h2)
                               | Some out \<Rightarrow>
                                   (case first_output out of
                                      Inl err \<Rightarrow> (Inl err, h2)
                                    | Inr c \<Rightarrow>
                                        (Inr [model_dump_json
                                           \<lparr>resp_id = rid, created = now e,
                                            resp_model = ''model_name'',
                                            choices = [\<lparr>choice_index = 0,
                                                        choice_text = out_text c,
                                                        choice_logprobs = PNone\<rparr>],
                                            usage = \<lparr>prompt_tokens = 0,
                                                     completion_tokens = 0,
                                                     total_tokens = 0\<rparr>\<rparr>], h2)))
                            else
                              (case result vs of
                                 None \<Rightarrow> (Inl (UnboundLocalError ''result''), h2)
                               | Some res \<Rightarrow> (Inr [json_dumps res], h2))))))"

definition postprocess :: "jsontext list \<Rightarrow> jsontext list" where
  "postprocess inference_outputs = inference_outputs"

text \<open>
  \<^verbatim>\<open>handle\<close>: the three stages in sequence; the handler time is recorded when all of
  them returned (the measured duration is wall-clock time and is left out).
\<close>

definition handle ::
  "env \<Rightarrow> VLLMHandler \<Rightarrow> pydict list \<Rightarrow> Context \<Rightarrow> (error + jsontext list) \<times> VLLMHandler" where
  "handle e h data ctx =
     (case preprocess e h data ctx of
        (Inl err, h1) \<Rightarrow> (Inl err, h1)
      | (Inr data_preprocess, h1) \<Rightarrow>
          (case inference e h1 data_preprocess ctx of
             (Inl err, h2) \<Rightarrow> (Inl err, h2)
           | (Inr out, h2) \<Rightarrow>
               (Inr (postprocess out), h2\<lparr>metrics := metrics h2 @ [''HandlerTime'']\<rparr>)))"

section \<open>Initialisation\<close>

text \<open>\<^verbatim>\<open>AsyncEngineArgs(model=model)\<close>: the defaults, with the model given.\<close>

definition AsyncEngineArgs :: "env \<Rightarrow> pyval \<Rightarrow> attrs" where
  "AsyncEngineArgs e m = AList.update ''model'' m (engine_defaults e)"

text \<open>
  The model of \<^verbatim>\<open>_get_vllm_engine_config\<close> when the engine section names none: the
  \<^verbatim>\<open>model_path\<close> of the handler section, under the model directory when that path
  exists, as it stands when it does not.
\<close>

definition model_from_path :: "env \<Rightarrow> VLLMHandler \<Rightarrow> pyval \<Rightarrow> error + pyval" where
  "model_from_path e h handler_config =
     (case py_get handler_config ''model_path'' (PDict []) of
        Inl err \<Rightarrow> Inl err
      | Inr model_path \<Rightarrow>
          (case py_len model_path of
             Inl err \<Rightarrow> Inl err
           | Inr m \<Rightarrow>
               if \<not> m > 0 then
                 Inl (AssertionError ModelUndefined)
               else
                 (case join_model_dir e (model_dir h) model_path of
                    Inl err \<Rightarrow> Inl err
                  | Inr p \<Rightarrow> if \<not> path_exists e p then Inr model_path else Inr (PPath p))))"

definition get_vllm_engine_config :: "env \<Rightarrow> VLLMHandler \<Rightarrow> pyval \<Rightarrow> error + attrs" where
  "get_vllm_engine_config e h handler_config =
     (case py_get handler_config ''vllm_engine_config'' (PDict []) of
        Inl err \<Rightarrow> Inl err
      | Inr vllm_engine_params \<Rightarrow>
          (case py_get vllm_engine_params ''model'' (PDict []) of
             Inl err \<Rightarrow> Inl err
           | Inr model \<Rightarrow>
               (case py_len model of
                  Inl err \<Rightarrow> Inl err
                | Inr n \<Rightarrow>
                    (case (if n = 0 then model_from_path e h handler_config else Inr model) of
                       Inl err \<Rightarrow> Inl err
                     | Inr model' \<Rightarrow>
                         (case vllm_engine_params of
                            PDict params \<Rightarrow> Inr (set_attr_value (AsyncEngineArgs e model') params)
                          | _ \<Rightarrow> Inl AttributeError)))))"

text \<open>
  \<^verbatim>\<open>initialize\<close>, from the model directory of the system properties and the model's
  YAML configuration; the engine is built from the engine configuration.
\<close>

definition initialize ::
  "env \<Rightarrow> VLLMHandler \<Rightarrow> string \<Rightarrow> pydict \<Rightarrow> (error + unit) \<times> VLLMHandler" where
  "initialize e h dir model_yaml_config =
     (let h1 = h\<lparr>model_dir := dir\<rparr>;
          handler_config = dict_get_default model_yaml_config ''handler'' (PDict [])
      in case get_vllm_engine_config e h1 handler_config of
           Inl err \<Rightarrow> (Inl err, h1)
         | Inr vllm_engine_config \<Rightarrow>
             (case py_get handler_config ''adapters'' (PDict []) of
                Inl err \<Rightarrow> (Inl err, h1)
              | Inr ad \<Rightarrow>
                  (Inr (), h1\<lparr>adapters := ad, vllm_engine := Some vllm_engine_config,
                              initialized := True\<rparr>)))"

section \<open>A concrete deployment\<close>

text \<open>
  An engine that answers every prompt with three events, two partial and the final one;
  a handler with three configured adapters, one of them without a path; the request
  identifier the host supplies.
\<close>

definition example_events :: "RequestOutput list" where
  "example_events =
     [\<lparr>outputs = [\<lparr>out_text = ''He'', token_ids = [101]\<rparr>], finished = False\<rparr>,
      \<lparr>outputs = [\<lparr>out_text = ''Hell'', token_ids = [101, 102]\<rparr>], finished = False\<rparr>,
      \<lparr>outputs = [\<lparr>out_text = ''Hello'', token_ids = [101, 102, 103]\<rparr>], finished = True\<rparr>]"

definition example_env :: env where
  "example_env =
     \<lparr>sampling_defaults = [(''temperature'', PFloat 1), (''max_tokens'', PInt 16)],
      engine_defaults = [(''model'', PStr ''facebook/opt-125m''), (''max_model_len'', PNone),
                         (''enable_lora'', PBool False)],
      joinpath = (\<lambda>d p. d @ ''/'' @ p),
      path_exists = (\<lambda>p. False),
      utf8_decode = (\<lambda>bs. if list_all (\<lambda>b. b < 128) bs
                            then Some (map (\<lambda>b. char_of (unat b)) bs) else None),
      generate = (\<lambda>prompt params rid lora. (example_events, None)),
      now = 1700000000\<rparr>"

definition example_ctx :: Context where
  "example_ctx = \<lparr>request_ids = [(0, ''req-1'')]\<rparr>"

definition example_handler :: VLLMHandler where
  "example_handler =
     init\<lparr>model_dir := ''/models/m1'',
          adapters := PDict [(''adapter_1'', PStr ''adapters/a1''),
                             (''adapter_2'', PStr ''adapters/a2''), (''broken'', PStr [])],
          initialized := True\<rparr>"

text \<open>
  Five requests of one process: two adapters, the first of them again, no adapter, and an
  adapter that is not configured.
\<close>

definition example_requests :: "pydict list" where
  "example_requests =
     [[(''prompt'', PStr ''a''), (''lora_adapter'', PStr ''adapter_2'')],
      [(''prompt'', PStr ''b''), (''lora_adapter'', PStr ''adapter_1'')],
      [(''prompt'', PStr ''c''), (''lora_adapter'', PStr ''adapter_2'')],
      [(''prompt'', PStr ''d'')],
      [(''prompt'', PStr ''e''), (''lora_adapter'', PStr ''unknown'')]]"

text \<open>
  A payload that arrives as bytes, the UTF-8 text of a JSON object with the prompt ``Hi'';
  and a handler section whose engine section has an empty \<^verbatim>\<open>model\<close> beside a
  \<^verbatim>\<open>model_path\<close>.
\<close>

definition example_body :: "byte list" where
  "example_body = [123, 34, 112, 114, 111, 109, 112, 116, 34, 58, 32, 34, 72, 105, 34, 125]"

definition example_config :: pyval where
  "example_config =
     PDict [(''vllm_engine_config'', PDict [(''model'', PStr []), (''max_model_len'', PInt 250)]),
            (''model_path'', PStr ''weights'')]"

section \<open>The stream of a request, in closed form\<close>

text \<open>
  The notions the properties of the loop are stated with; they are not part of the
  handler. An event is well formed when it has a first output with at least one token;
  the partial outputs of a generation are the first outputs of its events that are not
  finished, in order.
\<close>

definition well_formed :: "RequestOutput \<Rightarrow> bool" where
  "well_formed ev = (outputs ev \<noteq> [] \<and> token_ids (hd (outputs ev)) \<noteq> [])"

definition partials :: "RequestOutput list \<Rightarrow> CompletionOutput list" where
  "partials evs = map (\<lambda>ev. hd (outputs ev)) (filter (\<lambda>ev. \<not> finished ev) evs)"

text \<open>
  The result assembled for a partial output when \<open>n\<close> characters have been emitted
  before, and the results for a sequence of partial outputs, each cut at the length of the
  text before it.
\<close>

definition chunk :: "nat \<Rightarrow> CompletionOutput \<Rightarrow> pyval" where
  "chunk n c =
     PDict [(''text'', PStr (drop n (out_text c))), (''tokens'', PInt (last (token_ids c)))]"

definition chunks :: "nat \<Rightarrow> CompletionOutput list \<Rightarrow> pyval list" where
  "chunks n cs = map (\<lambda>(p, c). chunk p c) (zip (n # map (\<lambda>c. length (out_text c)) cs) cs)"

text \<open>The intermediate response that carries a result: status 200, label ``Result''.\<close>

definition push :: "Context \<Rightarrow> pyval \<Rightarrow> intermediate" where
  "push ctx res =
     \<lparr>payload = [json_dumps res], to_ids = request_ids ctx, label = ''Result'', status = 200\<rparr>"

text \<open>The \<^verbatim>\<open>text\<close> field of an intermediate response, read from its parsed payload.\<close>

definition intermediate_text :: "intermediate \<Rightarrow> string" where
  "intermediate_text m =
     (case payload m of
        [j] \<Rightarrow> (case json_loads j of
                  PDict kv \<Rightarrow> (case dict_get kv ''text'' of PStr t \<Rightarrow> t | _ \<Rightarrow> [])
                | _ \<Rightarrow> [])
      | _ \<Rightarrow> [])"

text \<open>Accumulated texts: each one extends the one before it.\<close>

fun cumulative :: "string list \<Rightarrow> bool" where
  "cumulative (s # t # ts) = (prefix s t \<and> cumulative (t # ts))"
| "cumulative ts = True"

section \<open>The adapter identifiers of a process\<close>

text \<open>
  The adapter resolutions of one process, request after request, each on the handler the
  one before left.
\<close>

fun resolve_all ::
  "env \<Rightarrow> VLLMHandler \<Rightarrow> pydict list \<Rightarrow> (error + LoRARequest option) list \<times> VLLMHandler" where
  "resolve_all e h [] = ([], h)"
| "resolve_all e h (r # rs) =
     (let (out, h1) = get_lora_request e h r;
          (outs, h2) = resolve_all e h1 rs
      in (out # outs, h2))"

text \<open>
  The notions the property of the identifiers is stated with; they are not part of the
  handler. The adapter name for which a request reaches the assignment of an identifier:
  a string that is not empty and has a path in the table of adapters, itself not empty.
\<close>

definition assigns :: "VLLMHandler \<Rightarrow> pydict \<Rightarrow> string option" where
  "assigns h req_data =
     (case dict_get_default req_data ''lora_adapter'' (PStr []) of
        PStr name \<Rightarrow>
          (if name = [] then None
           else case adapters_get (adapters h) (PStr name) of
                  Inl err \<Rightarrow> None
                | Inr adapter_path \<Rightarrow>
                    (case py_len adapter_path of
                       Inl err \<Rightarrow> None
                     | Inr m \<Rightarrow> if m > 0 then Some name else None))
      | _ \<Rightarrow> None)"

text \<open>The distinct elements of a list, in the order in which they first occur.\<close>

definition first_seen :: "'a list \<Rightarrow> 'a list" where
  "first_seen xs = rev (remdups (rev xs))"

text \<open>The table that numbers a list of names from 1.\<close>

definition table :: "string list \<Rightarrow> (string \<times> nat) list" where
  "table ns = zip ns [1..<Suc (length ns)]"

section \<open>The loop over the events\<close>

lemma chunks_Nil [simp]: "chunks n [] = []"
  by (simp add: chunks_def)

lemma chunks_Cons [simp]: "chunks n (c # cs) = chunk n c # chunks (length (out_text c)) cs"
  by (simp add: chunks_def)

lemma chunks_eq_Nil [simp]: "(chunks n cs = []) = (cs = [])"
  by (cases cs) simp_all

lemma length_chunks [simp]: "length (chunks n cs) = length cs"
  by (simp add: chunks_def)

lemma partials_Nil [simp]: "partials [] = []"
  by (simp add: partials_def)

lemma partials_Cons [simp]:
  "partials (ev # evs) = (if finished ev then partials evs else hd (outputs ev) # partials evs)"
  by (simp add: partials_def)

text \<open>
  Without streaming, or over finished events only, the loop sends nothing and assigns
  nothing but \<^verbatim>\<open>output\<close>.
\<close>

lemma consume_silent:
  "list_all (\<lambda>ev. finished ev \<or> \<not> truthy stream) evs \<Longrightarrow>
   consume stream ctx evs vs h =
     (Inr (if evs = [] then vs else vs\<lparr>output_var := Some (last evs)\<rparr>), h)"
  by (induction evs arbitrary: vs) auto

text \<open>
  With streaming, over well-formed events, the loop sends one response for each event that
  is not finished and leaves the last of them in \<^verbatim>\<open>result\<close>.
\<close>

lemma consume_streaming:
  assumes "truthy stream"
    and "list_all (\<lambda>ev. finished ev \<or> well_formed ev) evs"
  shows "consume stream ctx evs vs h =
     (Inr \<lparr>text_len = (if partials evs = [] then text_len vs
                         else length (out_text (last (partials evs)))),
           result = (if partials evs = [] then result vs
                     else Some (last (chunks (text_len vs) (partials evs)))),
           output_var = (if evs = [] then output_var vs else Some (last evs))\<rparr>,
      h\<lparr>sent := sent h @ map (push ctx) (chunks (text_len vs) (partials evs))\<rparr>)"
  using assms(2)
proof (induction evs arbitrary: vs h)
  case Nil
  then show ?case by simp
next
  case (Cons ev evs)
  then have rest: "list_all (\<lambda>ev. finished ev \<or> well_formed ev) evs" by simp
  show ?case
  proof (cases "finished ev")
    case True
    then show ?thesis using Cons.IH [OF rest] by simp
  next
    case False
    with Cons.prems obtain c cs where c: "outputs ev = c # cs" "token_ids c \<noteq> []"
      by (cases "outputs ev") (auto simp: well_formed_def)
    show ?thesis
      using False assms(1) c Cons.IH [OF rest]
      by (simp add: first_output_def last_token_def chunk_def push_def Let_def)
  qed
qed

lemma consume_generate_calls:
  "generate_calls (snd (consume stream ctx evs vs h)) = generate_calls h"
  by (induction evs arbitrary: vs h) (auto simp: Let_def split: sum.splits)

lemma intermediate_text_push [simp]:
  "intermediate_text (push ctx (chunk n c)) = drop n (out_text c)"
  by (simp add: intermediate_text_def push_def chunk_def json_dumps_def dict_get_def
      dict_get_default_def)

lemma cumulative_last: "cumulative (t # ts) \<Longrightarrow> prefix t (last (t # ts))"
proof (induction ts arbitrary: t)
  case Nil
  then show ?case by simp
next
  case (Cons u us)
  then have "prefix t u" and "prefix u (last (u # us))" by simp_all
  then show ?case by (auto intro: prefix_order.trans)
qed

text \<open>
  Cut at the length of the text before, the pieces of accumulated texts add up to the
  last text, less what had been emitted at the start.
\<close>

lemma concat_chunks:
  "cumulative (p # map out_text cs) \<Longrightarrow>
   concat (map (\<lambda>r. intermediate_text (push ctx r)) (chunks (length p) cs))
     = drop (length p) (last (p # map out_text cs))"
proof (induction cs arbitrary: p)
  case Nil
  then show ?case by simp
next
  case (Cons c cs)
  then have pc: "prefix p (out_text c)" and rest: "cumulative (out_text c # map out_text cs)"
    by simp_all
  from cumulative_last [OF rest] obtain r where
    r: "last (out_text c # map out_text cs) = out_text c @ r"
    by (auto simp: prefix_def)
  from pc have len: "length p \<le> length (out_text c)"
    by (rule prefix_length_le)
  have "concat (map (\<lambda>r. intermediate_text (push ctx r)) (chunks (length p) (c # cs)))
      = drop (length p) (out_text c) @ drop (length (out_text c)) (out_text c @ r)"
    using Cons.IH [OF rest] r by simp
  also have "\<dots> = drop (length p) (out_text c @ r)"
    using len by simp
  finally show ?case using r by simp
qed


lemma example_generate:
  "generate example_env prompt params rid lora = (example_events, None)"
  by (simp add: example_env_def)

lemma inference_generate_calls:
  "map_of (request_ids ctx) 0 = Some rid \<Longrightarrow>
   generate_calls (snd (inference e h [(prompt, stream, params, lora)] ctx))
     = generate_calls h @ [(prompt, params, rid, lora)]"
  using consume_generate_calls
    [of stream ctx "fst (generate e prompt params rid lora)"
        "\<lparr>text_len = 0, result = None, output_var = None\<rparr>"
        "h\<lparr>generate_calls := generate_calls h @ [(prompt, params, rid, lora)]\<rparr>"]
  by (auto simp: inference_def split: prod.splits sum.splits option.splits)

section \<open>The table of adapter identifiers\<close>

lemma first_seen_snoc:
  "first_seen (xs @ [x]) = (if x \<in> set xs then first_seen xs else first_seen xs @ [x])"
  by (simp add: first_seen_def)

lemma set_first_seen [simp]: "set (first_seen xs) = set xs"
  by (simp add: first_seen_def)

lemma distinct_first_seen [simp]: "distinct (first_seen xs)"
  by (simp add: first_seen_def)

lemma adapters_get_other:
  "adapters_get tbl key = Inr p \<Longrightarrow> \<forall>name. key \<noteq> PStr name \<Longrightarrow> py_len p = Inr 0"
  by (cases tbl; cases key) auto

lemma get_lora_request_lora_ids:
  "lora_ids (snd (get_lora_request e h r)) =
     (case assigns h r of
        None \<Rightarrow> lora_ids h
      | Some name \<Rightarrow> snd (setdefault (lora_ids h) name (length (lora_ids h) + 1)))"
proof (cases "dict_get_default r ''lora_adapter'' (PStr [])")
  case (PStr name)
  then show ?thesis
    by (auto simp: get_lora_request_def assigns_def Let_def split: sum.splits prod.splits)
next
  case (PBytes bs)
  then show ?thesis
    using adapters_get_other [of "adapters h" "PBytes bs"]
    by (auto simp: get_lora_request_def assigns_def Let_def split: sum.splits prod.splits)
next
  case (PList xs)
  then show ?thesis
    using adapters_get_other [of "adapters h" "PList xs"]
    by (auto simp: get_lora_request_def assigns_def Let_def split: sum.splits prod.splits)
next
  case (PDict kvs)
  then show ?thesis
    using adapters_get_other [of "adapters h" "PDict kvs"]
    by (auto simp: get_lora_request_def assigns_def Let_def split: sum.splits prod.splits)
qed (simp_all add: get_lora_request_def assigns_def)

lemma get_lora_request_adapters:
  "adapters (snd (get_lora_request e h r)) = adapters h"
  by (auto simp: get_lora_request_def Let_def split: sum.splits prod.splits pyval.splits)

lemma get_lora_request_Some:
  assumes "get_lora_request e h r = (Inr (Some l), h')"
  shows "assigns h r = Some (lora_name l)
       \<and> lora_int_id l = fst (setdefault (lora_ids h) (lora_name l) (length (lora_ids h) + 1))"
  using assms
  by (auto simp: get_lora_request_def assigns_def Let_def
      split: sum.splits prod.splits pyval.splits if_splits)

lemma assigns_cong: "adapters h1 = adapters h \<Longrightarrow> assigns h1 = assigns h"
  by (rule ext) (auto simp: assigns_def split: pyval.splits)

lemma length_table [simp]: "length (table ns) = length ns"
  by (simp add: table_def del: upt_Suc)

lemma table_snoc: "table (ns @ [x]) = table ns @ [(x, Suc (length ns))]"
proof -
  have "[1..<Suc (Suc (length ns))] = [1..<Suc (length ns)] @ [Suc (length ns)]"
    by (rule upt_Suc_append) simp
  moreover have "length ns = length [1..<Suc (length ns)]"
    by (simp del: upt_Suc)
  ultimately show ?thesis
    unfolding table_def by (simp only: length_append_singleton zip_append) simp
qed

lemma map_of_table_None: "(map_of (table ns) x = None) = (x \<notin> set ns)"
  unfolding table_def by (rule map_of_zip_is_None) (simp del: upt_Suc)

lemma setdefault_table:
  "snd (setdefault (table (first_seen ns)) name (length (table (first_seen ns)) + 1))
     = table (first_seen (ns @ [name]))"
proof (cases "name \<in> set ns")
  case True
  then obtain i where "map_of (table (first_seen ns)) name = Some i"
    using map_of_table_None [of "first_seen ns" name] by auto
  with True show ?thesis
    by (simp add: setdefault_def first_seen_snoc)
next
  case False
  then have "map_of (table (first_seen ns)) name = None"
    by (simp add: map_of_table_None)
  with False show ?thesis
    by (simp add: setdefault_def first_seen_snoc table_snoc)
qed

lemma get_lora_request_table:
  assumes "lora_ids h = table (first_seen ns)"
  shows "lora_ids (snd (get_lora_request e h r))
     = table (first_seen (ns @ (case assigns h r of None \<Rightarrow> [] | Some name \<Rightarrow> [name])))"
  using assms setdefault_table [of ns]
  by (simp add: get_lora_request_lora_ids split: option.splits)

lemma resolve_all_table:
  "lora_ids h = table (first_seen ns) \<Longrightarrow>
   lora_ids (snd (resolve_all e h rs)) = table (first_seen (ns @ List.map_filter (assigns h) rs))"
proof (induction rs arbitrary: h ns)
  case Nil
  then show ?case by (simp add: List.map_filter_simps)
next
  case (Cons r rs)
  let ?h1 = "snd (get_lora_request e h r)"
  let ?add = "case assigns h r of None \<Rightarrow> [] | Some name \<Rightarrow> [name]"
  have same: "assigns ?h1 = assigns h"
    by (rule assigns_cong) (rule get_lora_request_adapters)
  have "lora_ids ?h1 = table (first_seen (ns @ ?add))"
    using Cons.prems by (rule get_lora_request_table)
  from Cons.IH [OF this, unfolded same]
  show ?case
    by (simp add: List.map_filter_simps case_prod_unfold Let_def split: option.splits)
qed

lemma get_lora_request_keeps:
  "map_of (lora_ids h) k = Some i \<Longrightarrow> map_of (lora_ids (snd (get_lora_request e h r))) k = Some i"
  by (auto simp: get_lora_request_lora_ids setdefault_def split: option.splits)

lemma resolve_all_keeps:
  "map_of (lora_ids h) k = Some i \<Longrightarrow> map_of (lora_ids (snd (resolve_all e h rs))) k = Some i"
proof (induction rs arbitrary: h)
  case Nil
  then show ?case by simp
next
  case (Cons r rs)
  from Cons.IH [OF get_lora_request_keeps [OF Cons.prems, of e r]]
  show ?case by (simp add: case_prod_unfold Let_def)
qed

lemma get_lora_request_stored:
  assumes "get_lora_request e h r = (Inr (Some l), h')"
  shows "map_of (lora_ids h') (lora_name l) = Some (lora_int_id l)"
proof -
  from get_lora_request_Some [OF assms]
  have a: "assigns h r = Some (lora_name l)"
    and i: "lora_int_id l = fst (setdefault (lora_ids h) (lora_name l) (length (lora_ids h) + 1))"
    by simp_all
  have "lora_ids h' = snd (setdefault (lora_ids h) (lora_name l) (length (lora_ids h) + 1))"
    using get_lora_request_lora_ids [of e h r] assms a by simp
  with i show ?thesis
    by (auto simp: setdefault_def map_add_def split: option.splits)
qed

lemma resolve_all_stored:
  "Inr (Some l) \<in> set (fst (resolve_all e h rs)) \<Longrightarrow>
   map_of (lora_ids (snd (resolve_all e h rs))) (lora_name l) = Some (lora_int_id l)"
proof (induction rs arbitrary: h)
  case Nil
  then show ?case by simp
next
  case (Cons r rs)
  obtain out h1 where g: "get_lora_request e h r = (out, h1)"
    by (cases "get_lora_request e h r")
  show ?case
  proof (cases "out = Inr (Some l)")
    case True
    with g have "map_of (lora_ids h1) (lora_name l) = Some (lora_int_id l)"
      by (simp add: get_lora_request_stored)
    from resolve_all_keeps [OF this, of e rs] g show ?thesis
      by (simp add: case_prod_unfold Let_def)
  next
    case False
    with Cons.prems g have "Inr (Some l) \<in> set (fst (resolve_all e h1 rs))"
      by (simp add: case_prod_unfold Let_def)
    from Cons.IH [OF this] g show ?thesis
      by (simp add: case_prod_unfold Let_def)
  qed
qed

lemma handle_generate_calls:
  "preprocess e h requests ctx = (Inr batch, h1) \<Longrightarrow>
   generate_calls (snd (handle e h requests ctx)) = generate_calls (snd (inference e h1 batch ctx))"
  by (auto simp: handle_def split: prod.splits sum.splits)

section \<open>The merge of a configuration\<close>

lemma set_if_attr_keys [simp]: "map fst (set_if_attr obj k v) = map fst obj"
  by (simp add: set_if_attr_def update_keys)

lemma map_of_set_if_attr:
  "map_of (set_if_attr obj k' v') k
     = (if k = k' \<and> k' \<in> set (map fst obj) then Some v' else map_of obj k)"
  by (simp add: set_if_attr_def update_conv')

lemma set_attr_value_keys: "map fst (set_attr_value obj config) = map fst obj"
  by (induction obj config rule: set_attr_value.induct) simp_all

lemma map_of_set_attr_value:
  "distinct (map fst config) \<Longrightarrow>
   map_of (set_attr_value obj config) k =
     (if k \<in> set (map fst obj)
      then (case map_of config k of Some v \<Rightarrow> Some v | None \<Rightarrow> map_of obj k)
      else None)"
proof (induction obj config rule: set_attr_value.induct)
  case (1 obj)
  then show ?case by (simp add: map_of_eq_None_iff)
next
  case (2 obj k' v' config)
  then have k': "map_of config k' = None"
    by (simp add: map_of_eq_None_iff)
  from 2 have IH: "map_of (set_attr_value (set_if_attr obj k' v') config) k =
     (if k \<in> set (map fst obj)
      then (case map_of config k of Some v \<Rightarrow> Some v | None \<Rightarrow> map_of (set_if_attr obj k' v') k)
      else None)"
    by simp
  show ?case
  proof (cases "k = k'")
    case True
    then show ?thesis using IH k' by (simp add: map_of_set_if_attr)
  next
    case False
    then show ?thesis using IH by (simp add: map_of_set_if_attr cong: option.case_cong)
  qed
qed

section \<open>Payloads and the model location\<close>

text \<open>
  Once the model is resolved, the engine configuration is the merge of the engine section
  into the engine arguments built for that model.
\<close>

lemma engine_config_merge:
  assumes "dict_get_default hc ''vllm_engine_config'' (PDict []) = PDict config"
    and "py_len (dict_get_default config ''model'' (PDict [])) = Inr n"
    and "(if n = 0 then model_from_path e h (PDict hc)
          else Inr (dict_get_default config ''model'' (PDict []))) = Inr m"
  shows "get_vllm_engine_config e h (PDict hc) = Inr (set_attr_value (AsyncEngineArgs e m) config)"
  using assms by (simp add: get_vllm_engine_config_def)

lemma preprocess_bytes:
  assumes "py_or (dict_get item ''data'') (dict_get item ''body'') = PBytes bs"
  shows "preprocess e h [item] ctx =
     (Inl (case utf8_decode e bs of None \<Rightarrow> UnicodeDecodeError | Some s \<Rightarrow> AttributeError), h)"
  using assms
  by (simp add: preprocess_def prepare_completion_request_def split: option.splits)

lemma preprocess_mapping:
  assumes "py_or (dict_get item ''data'') (dict_get item ''body'') = PDict req"
  shows "preprocess e h [item] ctx =
     (case get_lora_request e h req of
        (Inl err, h') \<Rightarrow> (Inl err, h')
      | (Inr lora, h') \<Rightarrow>
          (Inr [(dict_get req ''prompt'', dict_get_default req ''stream'' (PBool False),
                 get_sampling_params e req, lora)], h'))"
  using assms
  by (simp add: preprocess_def prepare_completion_request_def split: prod.splits sum.splits)

lemma model_resolution:
  assumes "distinct (map fst params)"
    and "map_of hc ''vllm_engine_config'' = Some (PDict params)"
  shows "map_of params ''model'' = Some m \<and> py_len m = Inr n \<and> n > 0 \<longrightarrow>
           (\<exists>args. get_vllm_engine_config e h (PDict hc) = Inr args
              \<and> map_of args ''model'' = Some m)"
    and "map_of params ''model'' = None \<and> map_of hc ''model_path'' = Some (PStr p) \<and> p \<noteq> [] \<longrightarrow>
           (\<exists>args. get_vllm_engine_config e h (PDict hc) = Inr args
              \<and> map_of args ''model''
                  = Some (if path_exists e (joinpath e (model_dir h) p)
                          then PPath (joinpath e (model_dir h) p) else PStr p))"
    and "map_of params ''model'' = None
           \<and> (map_of hc ''model_path'' = None \<or> map_of hc ''model_path'' = Some (PStr [])) \<longrightarrow>
           get_vllm_engine_config e h (PDict hc) = Inl (AssertionError ModelUndefined)"
proof -
  have m: "''model'' \<in> set (map fst (AsyncEngineArgs e v))" for v
    by (simp add: AsyncEngineArgs_def dom_update)
  have args: "map_of (AsyncEngineArgs e v) ''model'' = Some v" for v
    by (simp add: AsyncEngineArgs_def update_conv')
  show "map_of params ''model'' = Some m \<and> py_len m = Inr n \<and> n > 0 \<longrightarrow>
           (\<exists>args. get_vllm_engine_config e h (PDict hc) = Inr args
              \<and> map_of args ''model'' = Some m)"
    using assms m [of m] map_of_set_attr_value [OF assms(1), of "AsyncEngineArgs e m" "''model''"]
    by (auto simp: get_vllm_engine_config_def dict_get_default_def)
  show "map_of params ''model'' = None \<and> map_of hc ''model_path'' = Some (PStr p) \<and> p \<noteq> [] \<longrightarrow>
           (\<exists>args. get_vllm_engine_config e h (PDict hc) = Inr args
              \<and> map_of args ''model''
                  = Some (if path_exists e (joinpath e (model_dir h) p)
                          then PPath (joinpath e (model_dir h) p) else PStr p))"
    using assms m args
      map_of_set_attr_value [OF assms(1), of "AsyncEngineArgs e (PStr p)" "''model''"]
      map_of_set_attr_value [OF assms(1),
        of "AsyncEngineArgs e (PPath (joinpath e (model_dir h) p))" "''model''"]
    by (auto simp: get_vllm_engine_config_def model_from_path_def dict_get_default_def)
  show "map_of params ''model'' = None
           \<and> (map_of hc ''model_path'' = None \<or> map_of hc ''model_path'' = Some (PStr [])) \<longrightarrow>
           get_vllm_engine_config e h (PDict hc) = Inl (AssertionError ModelUndefined)"
    using assms
    by (auto simp: get_vllm_engine_config_def model_from_path_def dict_get_default_def)
qed

section \<open>Batch size\<close>

text \<open>
  Claim C4. A request batch whose size is not exactly one (empty, or two and more) makes
  \<^verbatim>\<open>preprocess\<close>, and with it \<^verbatim>\<open>handle\<close>, raise the assertion error of the batch
  size; the handler is left as it was, so the engine's \<^verbatim>\<open>generate\<close> has not been called.
\<close>

theorem batch_size_precondition:
  assumes "length requests \<noteq> 1"
  shows "preprocess e h requests ctx = (Inl (AssertionError BatchSize), h)
       \<and> handle e h requests ctx = (Inl (AssertionError BatchSize), h)
       \<and> generate_calls (snd (handle e h requests ctx)) = generate_calls h"
  using assms by (simp add: preprocess_def handle_def)

theorem batch_size_precondition_witness:
  "handle example_env example_handler [] example_ctx
     = (Inl (AssertionError BatchSize), example_handler)
   \<and> handle example_env example_handler
        [[(''data'', PDict [(''prompt'', PStr ''a'')])],
         [(''data'', PDict [(''prompt'', PStr ''b'')])]] example_ctx
     = (Inl (AssertionError BatchSize), example_handler)"
  using batch_size_precondition [of "[]" example_env example_handler example_ctx]
        batch_size_precondition
          [of "[[(''data'', PDict [(''prompt'', PStr ''a'')])],
                [(''data'', PDict [(''prompt'', PStr ''b'')])]]"
              example_env example_handler example_ctx]
  by simp

section \<open>The completion response\<close>

text \<open>
  Claim C1. A batch of exactly one item whose payload is a mapping with \<^verbatim>\<open>stream\<close> false
  (or absent), whose adapter, if any, resolves, and for which the engine yields at least
  one event, the last with an output: \<^verbatim>\<open>handle\<close> returns exactly one output item, and
  that item parsed as JSON has the request identifier as \<^verbatim>\<open>id\<close>, the model name
  placeholder, one choice with index 0, the text of the last event and no log
  probabilities, and a usage block of zeros.
\<close>

theorem completion_response:
  assumes "py_or (dict_get item ''data'') (dict_get item ''body'') = PDict req"
    and "dict_get_default req ''stream'' (PBool False) = PBool False"
    and "get_lora_request e h req = (Inr lora, h')"
    and "map_of (request_ids ctx) 0 = Some rid"
    and "generate e (dict_get req ''prompt'') (get_sampling_params e req) rid lora = (evs, None)"
    and "evs \<noteq> []"
    and "outputs (last evs) = c # cs"
  shows "\<exists>j. fst (handle e h [item] ctx) = Inr [j]
          \<and> json_loads j =
              PDict [(''id'', PStr rid), (''created'', PInt (now e)),
                     (''model'', PStr ''model_name''),
                     (''choices'', PList [PDict [(''index'', PInt 0),
                                                 (''text'', PStr (out_text c)),
                                                 (''logprobs'', PNone)]]),
                     (''usage'', PDict [(''prompt_tokens'', PInt 0),
                                        (''completion_tokens'', PInt 0),
                                        (''total_tokens'', PInt 0)])]"
proof -
  have pre: "preprocess e h [item] ctx
      = (Inr [(dict_get req ''prompt'', PBool False, get_sampling_params e req, lora)], h')"
    using assms(1-3) by (simp add: preprocess_def prepare_completion_request_def)
  have "list_all (\<lambda>ev. finished ev \<or> \<not> truthy (PBool False)) evs"
    by (simp add: list_all_iff)
  from consume_silent [OF this]
  have inf: "fst (inference e h' [(dict_get req ''prompt'', PBool False,
                                   get_sampling_params e req, lora)] ctx)
      = Inr [model_dump_json
               \<lparr>resp_id = rid, created = now e, resp_model = ''model_name'',
                choices = [\<lparr>choice_index = 0, choice_text = out_text c,
                            choice_logprobs = PNone\<rparr>],
                usage = \<lparr>prompt_tokens = 0, completion_tokens = 0, total_tokens = 0\<rparr>\<rparr>]"
    using assms(4-7) by (simp add: inference_def first_output_def)
  show ?thesis
    using pre inf
    by (auto simp: handle_def postprocess_def model_dump_json_def choice_json_def
        usage_json_def split: prod.splits sum.splits)
qed

theorem completion_response_witness:
  "py_or (dict_get [(''data'', PDict [(''prompt'', PStr ''Hi''), (''stream'', PBool False)])] ''data'')
         (dict_get [(''data'', PDict [(''prompt'', PStr ''Hi''), (''stream'', PBool False)])] ''body'')
     = PDict [(''prompt'', PStr ''Hi''), (''stream'', PBool False)]
   \<and> get_lora_request example_env example_handler
         [(''prompt'', PStr ''Hi''), (''stream'', PBool False)] = (Inr None, example_handler)
   \<and> example_events \<noteq> []
   \<and> outputs (last example_events) = [\<lparr>out_text = ''Hello'', token_ids = [101, 102, 103]\<rparr>]
   \<and> (\<exists>j. fst (handle example_env example_handler
              [[(''data'', PDict [(''prompt'', PStr ''Hi''), (''stream'', PBool False)])]]
              example_ctx) = Inr [j]
          \<and> json_loads j =
              PDict [(''id'', PStr ''req-1''), (''created'', PInt 1700000000),
                     (''model'', PStr ''model_name''),
                     (''choices'', PList [PDict [(''index'', PInt 0),
                                                 (''text'', PStr ''Hello''),
                                                 (''logprobs'', PNone)]]),
                     (''usage'', PDict [(''prompt_tokens'', PInt 0),
                                        (''completion_tokens'', PInt 0),
                                        (''total_tokens'', PInt 0)])])"
  using completion_response [where item = "[(''data'', PDict [(''prompt'', PStr ''Hi''), (''stream'', PBool False)])]"
      and req = "[(''prompt'', PStr ''Hi''), (''stream'', PBool False)]"
      and e = example_env and h = example_handler and h' = example_handler and lora = None
      and ctx = example_ctx and rid = "''req-1''" and evs = example_events
      and c = "\<lparr>out_text = ''Hello'', token_ids = [101, 102, 103]\<rparr>" and cs = "[]"]
  by (simp add: example_generate example_ctx_def example_events_def py_or_def dict_get_def
      dict_get_default_def get_lora_request_def example_env_def)

section \<open>Streaming\<close>

text \<open>
  Claim C2, as stated, fails: nothing is sent for the final event, so the text that event
  adds is in no intermediate response. For the example engine the responses carry
  ``He'' and ``ll'', and the final text is ``Hello''.
\<close>

theorem streaming_concat_counterexample:
  "concat (map intermediate_text (sent (snd (handle example_env example_handler
      [[(''data'', PDict [(''prompt'', PStr ''Hi''), (''stream'', PBool True)])]] example_ctx))))
     = ''Hell''
   \<and> fst (generate example_env (PStr ''Hi'') (sampling_defaults example_env) ''req-1'' None)
     = example_events
   \<and> out_text (hd (outputs (last example_events))) = ''Hello''
   \<and> ''Hell'' \<noteq> ''Hello''"
  by (simp add: handle_def preprocess_def prepare_completion_request_def get_lora_request_def
      get_sampling_params_def inference_def example_env_def example_ctx_def example_events_def
      example_handler_def init_def py_or_def dict_get_def dict_get_default_def
      first_output_def last_token_def json_dumps_def intermediate_text_def Let_def)

text \<open>
  Claim C2, amended. For a request that streams, over well-formed events whose partial
  texts are accumulated: the intermediate responses are one for each event that is not
  finished and none for a finished one, each the JSON object of the incremental text and
  the latest token identifier, sent with status 200; their text fields, concatenated in
  the order sent, are the text of the last event that is not finished (empty when there
  is none).
\<close>

theorem streaming_chunks:
  assumes "truthy stream"
    and "map_of (request_ids ctx) 0 = Some rid"
    and "generate e prompt params rid lora = (evs, failure)"
    and "list_all (\<lambda>ev. finished ev \<or> well_formed ev) evs"
    and "cumulative (map out_text (partials evs))"
  shows "\<exists>msgs. sent (snd (inference e h [(prompt, stream, params, lora)] ctx)) = sent h @ msgs
           \<and> msgs = map (push ctx) (chunks 0 (partials evs))
           \<and> length msgs = length (filter (\<lambda>ev. \<not> finished ev) evs)
           \<and> concat (map intermediate_text msgs) = last ([] # map out_text (partials evs))"
proof -
  have "cumulative ([] # map out_text (partials evs))"
    using assms(5) by (cases "partials evs") simp_all
  from concat_chunks [OF this, of ctx]
  have "concat (map intermediate_text (map (push ctx) (chunks 0 (partials evs))))
          = last ([] # map out_text (partials evs))"
    by (simp add: comp_def)
  moreover have "length (chunks 0 (partials evs)) = length (filter (\<lambda>ev. \<not> finished ev) evs)"
    by (simp add: partials_def)
  moreover have "sent (snd (inference e h [(prompt, stream, params, lora)] ctx))
      = sent h @ map (push ctx) (chunks 0 (partials evs))"
    using assms(1-3) consume_streaming [OF assms(1) assms(4)]
    by (simp add: inference_def split: option.splits)
  ultimately show ?thesis by simp
qed

theorem streaming_chunks_witness:
  "truthy (PBool True)
   \<and> list_all (\<lambda>ev. finished ev \<or> well_formed ev) example_events
   \<and> cumulative (map out_text (partials example_events))
   \<and> (\<exists>msgs. sent (snd (inference example_env example_handler
                     [(PStr ''Hi'', PBool True, [], None)] example_ctx)) = msgs
          \<and> length msgs = 2
          \<and> concat (map intermediate_text msgs) = ''Hell'')"
  using streaming_chunks [where stream = "PBool True" and ctx = example_ctx and rid = "''req-1''"
      and e = example_env and prompt = "PStr ''Hi''" and params = "[]" and lora = None
      and evs = example_events and failure = None and h = example_handler]
  by (simp add: example_generate example_ctx_def example_events_def example_handler_def
      init_def well_formed_def)




section \<open>Variables the loop leaves unbound\<close>

text \<open>
  Claim C10. When the engine yields no event at all, or when the request streams and every
  event is finished, \<^verbatim>\<open>inference\<close> raises \<^verbatim>\<open>UnboundLocalError\<close> after the call of the
  engine: for \<^verbatim>\<open>output\<close> without streaming, for \<^verbatim>\<open>result\<close> with it.
\<close>

theorem inference_unbound:
  assumes "map_of (request_ids ctx) 0 = Some rid"
    and "generate e prompt params rid lora = (evs, None)"
    and "evs = [] \<or> (truthy stream \<and> list_all finished evs)"
  shows "inference e h [(prompt, stream, params, lora)] ctx =
      (Inl (UnboundLocalError (if truthy stream then ''result'' else ''output'')),
       h\<lparr>generate_calls := generate_calls h @ [(prompt, params, rid, lora)]\<rparr>)"
proof -
  from assms(3) have "list_all (\<lambda>ev. finished ev \<or> \<not> truthy stream) evs"
    by (auto simp: list_all_iff)
  from consume_silent [OF this] assms show ?thesis
    by (auto simp: inference_def)
qed

theorem inference_unbound_witness:
  "inference (example_env\<lparr>generate := (\<lambda>prompt params rid lora. ([], None))\<rparr>) example_handler
       [(PStr ''Hi'', PBool False, [], None)] example_ctx
     = (Inl (UnboundLocalError ''output''),
        example_handler\<lparr>generate_calls := [(PStr ''Hi'', [], ''req-1'', None)]\<rparr>)
   \<and> inference (example_env\<lparr>generate := (\<lambda>prompt params rid lora.
                     ([\<lparr>outputs = [\<lparr>out_text = ''Hello'', token_ids = [101]\<rparr>],
                        finished = True\<rparr>], None))\<rparr>) example_handler
       [(PStr ''Hi'', PBool True, [], None)] example_ctx
     = (Inl (UnboundLocalError ''result''),
        example_handler\<lparr>generate_calls := [(PStr ''Hi'', [], ''req-1'', None)]\<rparr>)"
  using inference_unbound [where ctx = example_ctx and rid = "''req-1''"
      and e = "example_env\<lparr>generate := (\<lambda>prompt params rid lora. ([], None))\<rparr>"
      and prompt = "PStr ''Hi''" and params = "[]" and lora = None and evs = "[]"
      and stream = "PBool False" and h = example_handler]
    inference_unbound [where ctx = example_ctx and rid = "''req-1''"
      and e = "example_env\<lparr>generate := (\<lambda>prompt params rid lora.
                     ([\<lparr>outputs = [\<lparr>out_text = ''Hello'', token_ids = [101]\<rparr>],
                        finished = True\<rparr>], None))\<rparr>"
      and prompt = "PStr ''Hi''" and params = "[]" and lora = None
      and evs = "[\<lparr>outputs = [\<lparr>out_text = ''Hello'', token_ids = [101]\<rparr>], finished = True\<rparr>]"
      and stream = "PBool True" and h = example_handler]
  by (simp add: example_ctx_def example_handler_def init_def)

section \<open>Adapters\<close>

text \<open>
  Claim C5. A request whose adapter name is a string that is not empty and that the table
  of adapters does not have, or has with an empty path, makes the adapter resolution, and
  with it \<^verbatim>\<open>handle\<close>, raise the assertion error of the adapter path, the handler left
  as it was (so without a call of the engine). A request without an adapter name resolves
  to no adapter reference, and the engine is called with none.
\<close>

theorem adapter_resolution:
  assumes "py_or (dict_get item ''data'') (dict_get item ''body'') = PDict req"
  shows "(map_of req ''lora_adapter'' = Some (PStr name) \<and> name \<noteq> [] \<and> adapters h = PDict tbl
            \<and> (map_of tbl name = None \<or> map_of tbl name = Some (PStr []))
          \<longrightarrow> get_lora_request e h req = (Inl (AssertionError (MissesAdapterPath (PStr name))), h)
              \<and> handle e h [item] ctx = (Inl (AssertionError (MissesAdapterPath (PStr name))), h))
       \<and> (map_of req ''lora_adapter'' = None
          \<longrightarrow> get_lora_request e h req = (Inr None, h)
              \<and> preprocess e h [item] ctx
                  = (Inr [(dict_get req ''prompt'', dict_get_default req ''stream'' (PBool False),
                           get_sampling_params e req, None)], h)
              \<and> (\<forall>rid. map_of (request_ids ctx) 0 = Some rid
                   \<longrightarrow> generate_calls (snd (handle e h [item] ctx))
                       = generate_calls h
                         @ [(dict_get req ''prompt'', get_sampling_params e req, rid, None)]))"
proof (intro conjI impI allI)
  assume a: "map_of req ''lora_adapter'' = Some (PStr name) \<and> name \<noteq> [] \<and> adapters h = PDict tbl
            \<and> (map_of tbl name = None \<or> map_of tbl name = Some (PStr []))"
  then show l: "get_lora_request e h req = (Inl (AssertionError (MissesAdapterPath (PStr name))), h)"
    by (auto simp: get_lora_request_def dict_get_default_def)
  show "handle e h [item] ctx = (Inl (AssertionError (MissesAdapterPath (PStr name))), h)"
    using assms l by (simp add: handle_def preprocess_def prepare_completion_request_def)
next
  assume a: "map_of req ''lora_adapter'' = None"
  then show l: "get_lora_request e h req = (Inr None, h)"
    by (simp add: get_lora_request_def dict_get_default_def)
  show p: "preprocess e h [item] ctx
                  = (Inr [(dict_get req ''prompt'', dict_get_default req ''stream'' (PBool False),
                           get_sampling_params e req, None)], h)"
    using assms l by (simp add: preprocess_def prepare_completion_request_def)
  fix rid assume "map_of (request_ids ctx) 0 = Some rid"
  then show "generate_calls (snd (handle e h [item] ctx))
                       = generate_calls h
                         @ [(dict_get req ''prompt'', get_sampling_params e req, rid, None)]"
    using handle_generate_calls [OF p] by (simp add: inference_generate_calls)
qed

theorem adapter_resolution_witness:
  "handle example_env example_handler
       [[(''data'', PDict [(''prompt'', PStr ''Hi''), (''lora_adapter'', PStr ''unknown'')])]]
       example_ctx
     = (Inl (AssertionError (MissesAdapterPath (PStr ''unknown''))), example_handler)
   \<and> handle example_env example_handler
       [[(''data'', PDict [(''prompt'', PStr ''Hi''), (''lora_adapter'', PStr ''broken'')])]]
       example_ctx
     = (Inl (AssertionError (MissesAdapterPath (PStr ''broken''))), example_handler)
   \<and> generate_calls (snd (handle example_env example_handler
        [[(''data'', PDict [(''prompt'', PStr ''Hi'')])]] example_ctx))
     = [(PStr ''Hi'', [(''temperature'', PFloat 1), (''max_tokens'', PInt 16)], ''req-1'', None)]"
  using adapter_resolution [where item = "[(''data'', PDict [(''prompt'', PStr ''Hi''), (''lora_adapter'', PStr ''unknown'')])]"
      and req = "[(''prompt'', PStr ''Hi''), (''lora_adapter'', PStr ''unknown'')]"
      and name = "''unknown''" and h = example_handler and e = example_env and ctx = example_ctx
      and tbl = "[(''adapter_1'', PStr ''adapters/a1''), (''adapter_2'', PStr ''adapters/a2''), (''broken'', PStr [])]"]
    adapter_resolution [where item = "[(''data'', PDict [(''prompt'', PStr ''Hi''), (''lora_adapter'', PStr ''broken'')])]"
      and req = "[(''prompt'', PStr ''Hi''), (''lora_adapter'', PStr ''broken'')]"
      and name = "''broken''" and h = example_handler and e = example_env and ctx = example_ctx
      and tbl = "[(''adapter_1'', PStr ''adapters/a1''), (''adapter_2'', PStr ''adapters/a2''), (''broken'', PStr [])]"]
    adapter_resolution [where item = "[(''data'', PDict [(''prompt'', PStr ''Hi'')])]"
      and req = "[(''prompt'', PStr ''Hi'')]"
      and h = example_handler and e = example_env and ctx = example_ctx]
  by (simp add: py_or_def dict_get_def dict_get_default_def example_handler_def init_def
      example_ctx_def get_sampling_params_def set_if_attr_def example_env_def)

text \<open>
  Claim C3. From a handler that has assigned no identifier yet, after any sequence of
  adapter resolutions: the table holds the names that reached the assignment, in the
  order they were first seen, numbered 1, 2, 3 and so on; every resolution that returned
  an adapter reference returned the identifier the table holds for its name; and one
  more resolution returns the stored identifier and changes nothing for a name in the
  table, and gives a new name the number of names in the table plus one.
\<close>

theorem adapter_identifiers:
  assumes "lora_ids h0 = []"
    and "resolve_all e h0 reqs = (outs, h)"
    and "ns = first_seen (List.map_filter (assigns h0) reqs)"
  shows "lora_ids h = zip ns [1..<Suc (length ns)]
       \<and> distinct (map fst (lora_ids h)) \<and> distinct (map snd (lora_ids h))
       \<and> (\<forall>l. Inr (Some l) \<in> set outs \<longrightarrow> map_of (lora_ids h) (lora_name l) = Some (lora_int_id l))
       \<and> (\<forall>r l h'. get_lora_request e h r = (Inr (Some l), h') \<longrightarrow>
            (if lora_name l \<in> set ns
             then map_of (lora_ids h) (lora_name l) = Some (lora_int_id l) \<and> lora_ids h' = lora_ids h
             else lora_int_id l = length ns + 1
                  \<and> lora_ids h' = lora_ids h @ [(lora_name l, length ns + 1)]))"
proof (intro conjI allI impI)
  have "lora_ids h0 = table (first_seen [])"
    using assms(1) by (simp add: table_def first_seen_def)
  from resolve_all_table [OF this, of e reqs] assms(2,3)
  show t: "lora_ids h = zip ns [1..<Suc (length ns)]"
    by (simp add: table_def)
  then have t': "lora_ids h = table ns" by (simp add: table_def)
  have len: "length ns = length [1..<Suc (length ns)]"
    by (simp del: upt_Suc)
  show "distinct (map fst (lora_ids h))"
    using assms(3) by (simp only: t map_fst_zip [OF len]) simp
  show "distinct (map snd (lora_ids h))"
    by (simp only: t map_snd_zip [OF len] distinct_upt)
  show "map_of (lora_ids h) (lora_name l) = Some (lora_int_id l)"
    if "Inr (Some l) \<in> set outs" for l
    using resolve_all_stored [of l e h0 reqs] that assms(2) by simp
  show "if lora_name l \<in> set ns
        then map_of (lora_ids h) (lora_name l) = Some (lora_int_id l) \<and> lora_ids h' = lora_ids h
        else lora_int_id l = length ns + 1
             \<and> lora_ids h' = lora_ids h @ [(lora_name l, length ns + 1)]"
    if g: "get_lora_request e h r = (Inr (Some l), h')" for r l h'
  proof -
    from get_lora_request_Some [OF g]
    have a: "assigns h r = Some (lora_name l)"
      and i: "lora_int_id l = fst (setdefault (lora_ids h) (lora_name l) (length (lora_ids h) + 1))"
      by simp_all
    have h': "lora_ids h' = snd (setdefault (lora_ids h) (lora_name l) (length (lora_ids h) + 1))"
      using get_lora_request_lora_ids [of e h r] g a by simp
    show ?thesis
    proof (cases "lora_name l \<in> set ns")
      case True
      then obtain j where "map_of (lora_ids h) (lora_name l) = Some j"
        using map_of_table_None [of ns "lora_name l"] t' by auto
      with True i h' show ?thesis by (simp add: setdefault_def)
    next
      case False
      then have "map_of (lora_ids h) (lora_name l) = None"
        using map_of_table_None [of ns "lora_name l"] t' by simp
      with False i h' t' show ?thesis by (simp add: setdefault_def)
    qed
  qed
qed

theorem adapter_identifiers_witness:
  "lora_ids example_handler = []
   \<and> first_seen (List.map_filter (assigns example_handler) example_requests)
       = [''adapter_2'', ''adapter_1'']
   \<and> lora_ids (snd (resolve_all example_env example_handler example_requests))
       = [(''adapter_2'', 1), (''adapter_1'', 2)]
   \<and> map (map_sum id (map_option lora_int_id))
         (fst (resolve_all example_env example_handler example_requests))
       = [Inr (Some 1), Inr (Some 2), Inr (Some 1), Inr None,
          Inl (AssertionError (MissesAdapterPath (PStr ''unknown'')))]"
  using adapter_identifiers [where ?h0.0 = example_handler and e = example_env
      and reqs = example_requests
      and outs = "fst (resolve_all example_env example_handler example_requests)"
      and h = "snd (resolve_all example_env example_handler example_requests)"
      and ns = "[''adapter_2'', ''adapter_1'']"]
  by (simp add: example_requests_def example_handler_def init_def example_env_def
      get_lora_request_def dict_get_default_def setdefault_def first_seen_def
      List.map_filter_simps assigns_def Let_def)

section \<open>Permissive merge\<close>

text \<open>
  Claim C7. Merging a configuration into an object leaves the attributes of the object as
  they are, writes to each attribute that the configuration names the value it gives and
  leaves every other attribute at its value; a key that is no attribute is passed over,
  and the merge has no failure. Both uses are this merge, for every configuration: the
  sampling parameters of a request are the defaults merged with the request, and the
  engine configuration is the engine arguments built for the resolved model, merged with
  the engine section, whenever the model resolves. For the engine section
  \<^verbatim>\<open>{"model": "X", "unknown_field": 1}\<close> that is the defaults with the model X.
\<close>

theorem permissive_merge:
  assumes "distinct (map fst config)"
  shows "map fst (set_attr_value obj config) = map fst obj
       \<and> (\<forall>k \<in> set (map fst obj).
             map_of (set_attr_value obj config) k
               = (case map_of config k of Some v \<Rightarrow> Some v | None \<Rightarrow> map_of obj k))
       \<and> get_sampling_params e config = set_attr_value (sampling_defaults e) config
       \<and> (''unknown_field'' \<notin> set (map fst (engine_defaults e))
            \<and> map_of hc ''vllm_engine_config''
                 = Some (PDict [(''model'', PStr ''X''), (''unknown_field'', PInt 1)])
          \<longrightarrow> get_vllm_engine_config e h (PDict hc)
                = Inr (AList.update ''model'' (PStr ''X'') (engine_defaults e)))
       \<and> map fst (get_sampling_params e config) = map fst (sampling_defaults e)
       \<and> (\<forall>k \<in> set (map fst (sampling_defaults e)).
             map_of (get_sampling_params e config) k
               = (case map_of config k of
                    Some v \<Rightarrow> Some v
                  | None \<Rightarrow> map_of (sampling_defaults e) k))
       \<and> (dict_get_default hc' ''vllm_engine_config'' (PDict []) = PDict config
            \<and> py_len (dict_get_default config ''model'' (PDict [])) = Inr n
            \<and> (if n = 0 then model_from_path e h (PDict hc')
                else Inr (dict_get_default config ''model'' (PDict []))) = Inr m
          \<longrightarrow> (\<exists>args. get_vllm_engine_config e h (PDict hc') = Inr args
                 \<and> args = set_attr_value (AsyncEngineArgs e m) config
                 \<and> map fst args = map fst (AsyncEngineArgs e m)
                 \<and> (\<forall>k \<in> set (map fst (AsyncEngineArgs e m)).
                       map_of args k
                         = (case map_of config k of
                              Some v \<Rightarrow> Some v
                            | None \<Rightarrow> map_of (AsyncEngineArgs e m) k))))"
proof (intro conjI ballI impI)
  show "map fst (set_attr_value obj config) = map fst obj"
    by (rule set_attr_value_keys)
  show "map_of (set_attr_value obj config) k
          = (case map_of config k of Some v \<Rightarrow> Some v | None \<Rightarrow> map_of obj k)"
    if "k \<in> set (map fst obj)" for k
    using that map_of_set_attr_value [OF assms, of obj k] by simp
  show "get_sampling_params e config = set_attr_value (sampling_defaults e) config"
    by (simp add: get_sampling_params_def)
  show "map fst (get_sampling_params e config) = map fst (sampling_defaults e)"
    by (simp add: get_sampling_params_def set_attr_value_keys)
  show "map_of (get_sampling_params e config) k
          = (case map_of config k of Some v \<Rightarrow> Some v | None \<Rightarrow> map_of (sampling_defaults e) k)"
    if "k \<in> set (map fst (sampling_defaults e))" for k
    using that map_of_set_attr_value [OF assms, of "sampling_defaults e" k]
    by (simp add: get_sampling_params_def)
next
  assume a: "''unknown_field'' \<notin> set (map fst (engine_defaults e))
     \<and> map_of hc ''vllm_engine_config''
          = Some (PDict [(''model'', PStr ''X''), (''unknown_field'', PInt 1)])"
  then have "''unknown_field''
      \<notin> set (map fst (AList.update ''model'' (PStr ''X'') (engine_defaults e)))"
    by (simp add: dom_update)
  moreover have "''model''
      \<in> set (map fst (AList.update ''model'' (PStr ''X'') (engine_defaults e)))"
    by (simp add: dom_update)
  ultimately show "get_vllm_engine_config e h (PDict hc)
      = Inr (AList.update ''model'' (PStr ''X'') (engine_defaults e))"
    using a
    by (simp add: get_vllm_engine_config_def dict_get_default_def AsyncEngineArgs_def
        set_if_attr_def update_last)
next
  assume r: "dict_get_default hc' ''vllm_engine_config'' (PDict []) = PDict config
            \<and> py_len (dict_get_default config ''model'' (PDict [])) = Inr n
            \<and> (if n = 0 then model_from_path e h (PDict hc')
                else Inr (dict_get_default config ''model'' (PDict []))) = Inr m"
  then have r1: "dict_get_default hc' ''vllm_engine_config'' (PDict []) = PDict config"
    and r2: "py_len (dict_get_default config ''model'' (PDict [])) = Inr n"
    and r3: "(if n = 0 then model_from_path e h (PDict hc')
              else Inr (dict_get_default config ''model'' (PDict []))) = Inr m"
    by blast+
  have g: "get_vllm_engine_config e h (PDict hc')
      = Inr (set_attr_value (AsyncEngineArgs e m) config)"
    by (rule engine_config_merge [OF r1 r2 r3])
  have law: "map_of (set_attr_value (AsyncEngineArgs e m) config) k
          = (case map_of config k of Some v \<Rightarrow> Some v | None \<Rightarrow> map_of (AsyncEngineArgs e m) k)"
    if "k \<in> set (map fst (AsyncEngineArgs e m))" for k
    using that map_of_set_attr_value [OF assms, of "AsyncEngineArgs e m" k] by simp
  show "\<exists>args. get_vllm_engine_config e h (PDict hc') = Inr args
           \<and> args = set_attr_value (AsyncEngineArgs e m) config
           \<and> map fst args = map fst (AsyncEngineArgs e m)
           \<and> (\<forall>k \<in> set (map fst (AsyncEngineArgs e m)).
                 map_of args k
                   = (case map_of config k of
                        Some v \<Rightarrow> Some v
                      | None \<Rightarrow> map_of (AsyncEngineArgs e m) k))"
    using g law by (simp add: set_attr_value_keys)
qed

theorem permissive_merge_witness:
  "distinct (map fst [(''temperature'', PFloat 0), (''top_k'', PInt 5), (''prompt'', PStr ''Hi'')])
   \<and> get_sampling_params example_env
        [(''temperature'', PFloat 0), (''top_k'', PInt 5), (''prompt'', PStr ''Hi'')]
       = [(''temperature'', PFloat 0), (''max_tokens'', PInt 16)]
   \<and> get_vllm_engine_config example_env example_handler
        (PDict [(''vllm_engine_config'',
                 PDict [(''model'', PStr ''X''), (''unknown_field'', PInt 1)])])
       = Inr [(''model'', PStr ''X''), (''max_model_len'', PNone), (''enable_lora'', PBool False)]
   \<and> distinct (map fst [(''model'', PStr ''X''), (''max_model_len'', PInt 250),
                         (''unknown_field'', PInt 1)])
   \<and> py_len (PStr ''X'') = Inr 1
   \<and> get_vllm_engine_config example_env example_handler
        (PDict [(''vllm_engine_config'',
                 PDict [(''model'', PStr ''X''), (''max_model_len'', PInt 250),
                        (''unknown_field'', PInt 1)])])
       = Inr [(''model'', PStr ''X''), (''max_model_len'', PInt 250),
              (''enable_lora'', PBool False)]"
  using permissive_merge [where config = "[(''temperature'', PFloat 0), (''top_k'', PInt 5), (''prompt'', PStr ''Hi'')]"
      and obj = "sampling_defaults example_env" and e = example_env and h = example_handler
      and hc = "[(''vllm_engine_config'',
                 PDict [(''model'', PStr ''X''), (''unknown_field'', PInt 1)])]"]
    permissive_merge [where config = "[(''model'', PStr ''X''), (''max_model_len'', PInt 250),
                        (''unknown_field'', PInt 1)]"
      and obj = "engine_defaults example_env" and e = example_env and h = example_handler
      and hc' = "[(''vllm_engine_config'',
                 PDict [(''model'', PStr ''X''), (''max_model_len'', PInt 250),
                        (''unknown_field'', PInt 1)])]"
      and n = 1 and m = "PStr ''X''"]
  by (simp add: example_env_def set_if_attr_def dict_get_default_def AsyncEngineArgs_def)

section \<open>The payload of a request\<close>

text \<open>
  Claim C8, on a payload of bytes. The bytes of the example decode as UTF-8, and
  \<^verbatim>\<open>preprocess\<close> passes the decoded string to \<^verbatim>\<open>prepare_completion_request\<close>, which
  calls \<^verbatim>\<open>get\<close> on it: an \<^verbatim>\<open>AttributeError\<close>, and no normalised request.
\<close>

theorem preprocess_bytes_payload:
  "utf8_decode example_env example_body
     = Some (map (\<lambda>b. char_of (unat b)) example_body)
   \<and> preprocess example_env example_handler [[(''body'', PBytes example_body)]] example_ctx
     = (Inl AttributeError, example_handler)
   \<and> handle example_env example_handler [[(''body'', PBytes example_body)]] example_ctx
     = (Inl AttributeError, example_handler)"
  by (simp add: handle_def preprocess_def prepare_completion_request_def py_or_def dict_get_def
      dict_get_default_def example_env_def example_body_def)

section \<open>The model location\<close>

text \<open>
  Claim C6, on an engine section with an empty \<^verbatim>\<open>model\<close>. The model is taken from
  \<^verbatim>\<open>model_path\<close>, and the merge of the engine section then writes the empty
  \<^verbatim>\<open>model\<close> over it.
\<close>

theorem empty_model_overrides_model_path:
  "model_from_path example_env example_handler example_config = Inr (PStr ''weights'')
   \<and> get_vllm_engine_config example_env example_handler example_config
     = Inr [(''model'', PStr []), (''max_model_len'', PInt 250), (''enable_lora'', PBool False)]"
  by (simp add: get_vllm_engine_config_def model_from_path_def dict_get_default_def
      AsyncEngineArgs_def set_if_attr_def example_env_def example_handler_def init_def
      example_config_def)

end
